theory Spec2Isabelle
  imports Complex_Main
begin

section \<open>Tensors over the reals\<close>

text \<open>
  The models of \<^verbatim>\<open>models.py\<close> are tensor programs over floating-point numbers. They are
  embedded here over the real numbers: a one-dimensional tensor is a list of reals, a
  two-dimensional tensor (batch by width) is a list of rows. Rounding, overflow and NaN are
  outside the embedding, with one exception: the underflow of the single-precision
  exponential to exactly 0, on which a statement about the sign of a code depends, is
  part of \<open>torch_exp\<close> below. A division by a zero norm, which gives NaN in the
  program, is the HOL division \<open>x / 0 = 0\<close> here; every statement below that depends on the
  result of such a division assumes that the norm is not zero.

  The operations of the tensor library (\<^verbatim>\<open>torch\<close>) are modelled on operands of conformant
  shapes, as the models' constructors set them up: every row of a batch has the width the
  operation expects. On other shapes the library broadcasts or raises; that behaviour is
  not modelled, and the list operations below truncate instead.
\<close>

type_synonym vec = "real list"
type_synonym mat = "real list list"

text \<open>\<^verbatim>\<open>torch.linalg.norm(D, dim=1)\<close> and \<^verbatim>\<open>D.norm(dim=-1)\<close> of one row: the L2 norm.\<close>

definition row_norm :: "vec \<Rightarrow> real" where
  "row_norm r = sqrt (\<Sum>x\<leftarrow>r. x\<^sup>2)"

text \<open>\<^verbatim>\<open>D / norm(D, dim=1, keepdim=True)\<close>: every row divided by its own norm.\<close>

definition normalize_rows :: "mat \<Rightarrow> mat" where
  "normalize_rows D = map (\<lambda>r. map (\<lambda>x. x / row_norm r) r) D"

definition dot :: "vec \<Rightarrow> vec \<Rightarrow> real" where
  "dot u v = (\<Sum>(a, b)\<leftarrow>zip u v. a * b)"

text \<open>
  \<^verbatim>\<open>A @ B\<close> for a batch \<open>A\<close> and a matrix \<open>B\<close> with \<open>m\<close> columns. The width \<open>m\<close> is part of
  the shape of \<open>B\<close>; a list of rows does not record it when \<open>B\<close> has no row, so it is passed.
\<close>

definition matmul :: "nat \<Rightarrow> mat \<Rightarrow> mat \<Rightarrow> mat" where
  "matmul m A B = map (\<lambda>a. map (\<lambda>j. (\<Sum>i\<leftarrow>[0..<length B]. a ! i * B ! i ! j)) [0..<m]) A"

text \<open>\<^verbatim>\<open>nn.Linear\<close> with weight \<open>W\<close> (out by in) and bias \<open>b\<close>: \<open>x W\<^sup>T + b\<close> for every row.\<close>

definition linear :: "mat \<Rightarrow> vec \<Rightarrow> mat \<Rightarrow> mat" where
  "linear W b X = map (\<lambda>x. map2 (\<lambda>w c. dot x w + c) W b) X"

definition linear_nobias :: "mat \<Rightarrow> mat \<Rightarrow> mat" where
  "linear_nobias W X = map (\<lambda>x. map (\<lambda>w. dot x w) W) X"

definition relu :: "real \<Rightarrow> real" where
  "relu x = max 0 x"

text \<open>
  \<^verbatim>\<open>torch.exp\<close> on a single-precision tensor (the default type of every parameter here).
  The smallest positive single-precision number is \<open>1 / 2 ^ 149\<close>; rounding to nearest gives
  exactly 0 when the exponential is at most half of it, which happens for every argument
  below about \<open>-104\<close>. Above that the real exponential stands for the rounded value.
\<close>

definition exp_underflows :: "real \<Rightarrow> bool" where
  "exp_underflows x = (exp x * 2 ^ 150 \<le> 1)"

definition torch_exp :: "real \<Rightarrow> real" where
  "torch_exp x = (if exp_underflows x then 0 else exp x)"

text \<open>Element-wise operations of two batches, and of a batch with a broadcast vector.\<close>

definition mat_sub :: "mat \<Rightarrow> mat \<Rightarrow> mat" where
  "mat_sub A B = map2 (map2 (-)) A B"

definition mat_mul :: "mat \<Rightarrow> mat \<Rightarrow> mat" where
  "mat_mul A B = map2 (map2 (*)) A B"

definition sub_vec :: "mat \<Rightarrow> vec \<Rightarrow> mat" where
  "sub_vec A v = map (\<lambda>a. map2 (-) a v) A"

definition add_vec :: "mat \<Rightarrow> vec \<Rightarrow> mat" where
  "add_vec A v = map (\<lambda>a. map2 (+) a v) A"

definition mul_vec :: "mat \<Rightarrow> vec \<Rightarrow> mat" where
  "mul_vec A v = map (\<lambda>a. map2 (*) a v) A"

text \<open>\<^verbatim>\<open>torch.sum\<close> over all entries, and the number of entries.\<close>

definition sum_all :: "mat \<Rightarrow> real" where
  "sum_all A = (\<Sum>r\<leftarrow>A. sum_list r)"

definition numel :: "mat \<Rightarrow> nat" where
  "numel A = (\<Sum>r\<leftarrow>A. length r)"

text \<open>
  \<^verbatim>\<open>F.mse_loss(A, B, reduction='sum')\<close> and \<^verbatim>\<open>reduction='mean'\<close>. (The mean over no entries
  is NaN in the library and 0 here.)
\<close>

definition mse_loss_sum :: "mat \<Rightarrow> mat \<Rightarrow> real" where
  "mse_loss_sum A B = sum_all (map (map (\<lambda>d. d\<^sup>2)) (mat_sub A B))"

definition mse_loss_mean :: "mat \<Rightarrow> mat \<Rightarrow> real" where
  "mse_loss_mean A B = mse_loss_sum A B / real (numel (mat_sub A B))"

text \<open>A batch whose rows all have width \<open>m\<close>.\<close>

definition has_width :: "nat \<Rightarrow> mat \<Rightarrow> bool" where
  "has_width m A = list_all (\<lambda>r. length r = m) A"


section \<open>SparseCoding\<close>

text \<open>
  The parameters of a model are a record; a method that mutates them returns the new
  record with its result. The attributes \<^verbatim>\<open>D_\<close> and \<^verbatim>\<open>log_S_\<close> are the fields \<open>sc_D\<close> and
  \<open>sc_log_S\<close> (a name cannot end with an underscore here), and the locals \<^verbatim>\<open>S_\<close> and \<^verbatim>\<open>X_\<close>
  are \<open>S'\<close> and \<open>X'\<close>. \<open>sc_M\<close> is \<^verbatim>\<open>D_.shape[1]\<close>, the width of the dictionary.
\<close>

record SparseCoding =
  sc_learn_D :: bool
  sc_log_S :: mat
  sc_D :: mat
  sc_M :: nat

text \<open>
  \<^verbatim>\<open>__init__(S, D, learn_D, seed)\<close>. \<open>M\<close> is \<^verbatim>\<open>D.shape[1]\<close> and \<open>rnd\<close> is the draw of
  \<^verbatim>\<open>torch.randn(D.shape)\<close>, which the seed determines.
\<close>

definition SparseCoding_init :: "mat \<Rightarrow> mat \<Rightarrow> nat \<Rightarrow> bool \<Rightarrow> mat \<Rightarrow> SparseCoding" where
  "SparseCoding_init S D M learn_D rnd =
     \<lparr> sc_learn_D = learn_D,
       sc_log_S = replicate (length S) (replicate (length D) (- 10)),
       sc_D = (if learn_D then rnd else D),
       sc_M = M \<rparr>"

text \<open>
  \<^verbatim>\<open>forward(X=None)\<close>: the argument is optional and is not read. (\<^verbatim>\<open>infer\<close>, which runs an
  optimizer on a fresh \<^verbatim>\<open>log_S_\<close>, is not part of the embedding.)
\<close>

definition SparseCoding_forward ::
  "SparseCoding \<Rightarrow> mat option \<Rightarrow> SparseCoding \<times> (mat \<times> mat)" where
  "SparseCoding_forward st X =
     (let st' = (if sc_learn_D st then st\<lparr>sc_D := normalize_rows (sc_D st)\<rparr> else st);
          S' = map (map torch_exp) (sc_log_S st');
          X' = matmul (sc_M st') S' (sc_D st')
      in (st', (S', X')))"

definition SparseCoding_loss_forward ::
  "SparseCoding \<Rightarrow> mat \<Rightarrow> real \<Rightarrow> SparseCoding \<times> (mat \<times> mat \<times> real)" where
  "SparseCoding_loss_forward st X weight =
     (case SparseCoding_forward st (Some X) of
        (st', (S', X')) \<Rightarrow>
          (st', (S', X',
             sum_all (map (map (\<lambda>d. d\<^sup>2)) (mat_sub X X')) + weight * sum_all (map (map abs) S'))))"


section \<open>SparseAutoEncoder\<close>

text \<open>
  The encoder is \<^verbatim>\<open>nn.Linear(M, N)\<close> (weight \<open>sae_W\<close>, \<open>N\<close> by \<open>M\<close>, and bias \<open>sae_b\<close>) followed
  by \<^verbatim>\<open>nn.ReLU()\<close> when \<^verbatim>\<open>relu\<close> is true and by \<^verbatim>\<open>Exp()\<close> otherwise. The constructor's random
  draws (the layer's initial weight and bias, and \<^verbatim>\<open>torch.randn(D.shape)\<close>) are arguments.
\<close>

record SparseAutoEncoder =
  sae_learn_D :: bool
  sae_relu :: bool
  sae_W :: mat
  sae_b :: vec
  sae_D :: mat
  sae_M :: nat

definition SparseAutoEncoder_init ::
  "mat \<Rightarrow> nat \<Rightarrow> bool \<Rightarrow> bool \<Rightarrow> mat \<Rightarrow> vec \<Rightarrow> mat \<Rightarrow> SparseAutoEncoder" where
  "SparseAutoEncoder_init D M learn_D use_relu rndW rndb rnd =
     \<lparr> sae_learn_D = learn_D,
       sae_relu = use_relu,
       sae_W = rndW,
       sae_b = rndb,
       sae_D = (if learn_D then rnd else D),
       sae_M = M \<rparr>"

definition encoder :: "SparseAutoEncoder \<Rightarrow> mat \<Rightarrow> mat" where
  "encoder st X =
     map (map (if sae_relu st then relu else torch_exp)) (linear (sae_W st) (sae_b st) X)"

definition SparseAutoEncoder_forward ::
  "SparseAutoEncoder \<Rightarrow> mat \<Rightarrow> SparseAutoEncoder \<times> (mat \<times> mat)" where
  "SparseAutoEncoder_forward st X =
     (let st' = (if sae_learn_D st then st\<lparr>sae_D := normalize_rows (sae_D st)\<rparr> else st);
          S' = encoder st' X;
          X' = matmul (sae_M st') S' (sae_D st')
      in (st', (S', X')))"

definition SparseAutoEncoder_loss_forward ::
  "SparseAutoEncoder \<Rightarrow> mat \<Rightarrow> real \<Rightarrow> SparseAutoEncoder \<times> (mat \<times> mat \<times> real)" where
  "SparseAutoEncoder_loss_forward st X weight =
     (case SparseAutoEncoder_forward st X of
        (st', (S', X')) \<Rightarrow>
          (st', (S', X',
             sum_all (map (map (\<lambda>d. d\<^sup>2)) (mat_sub X X')) + weight * sum_all (map (map abs) S'))))"


section \<open>GatedSAE\<close>

datatype error = RuntimeError | TypeError

text \<open>
  \<open>gs_D_grad\<close> is \<^verbatim>\<open>D_.grad\<close>: \<^verbatim>\<open>None\<close> until a backward pass has stored a gradient.
  The constructor's draws of \<^verbatim>\<open>kaiming_uniform_\<close> are the arguments \<open>rnd\<close> and \<open>rndW\<close>.
  Its last statement on the dictionary divides \<^verbatim>\<open>D_.data\<close> by the row norms whatever
  \<^verbatim>\<open>learn_D\<close> is. (With \<^verbatim>\<open>learn_D=False\<close> the parameter shares its storage with the
  caller's \<open>D\<close>, so the caller's tensor is divided too; the model returns the new value.)
\<close>

record GatedSAE =
  gs_learn_D :: bool
  gs_D :: mat
  gs_D_grad :: "mat option"
  gs_W_gate :: mat
  gs_b_dec :: vec
  gs_b_enc_gate :: vec
  gs_b_dec_gate :: vec
  gs_r_mag :: vec
  gs_b_mag :: vec
  gs_b_gate :: vec
  gs_d_hidden :: nat
  gs_M :: nat

definition GatedSAE_init :: "mat \<Rightarrow> nat \<Rightarrow> bool \<Rightarrow> mat \<Rightarrow> mat \<Rightarrow> GatedSAE" where
  "GatedSAE_init D M learn_D rnd rndW =
     (let N = length D in
      \<lparr> gs_learn_D = learn_D,
        gs_D = normalize_rows (if learn_D then rnd else D),
        gs_D_grad = None,
        gs_W_gate = rndW,
        gs_b_dec = replicate M 0,
        gs_b_enc_gate = replicate N 0,
        gs_b_dec_gate = replicate M 0,
        gs_r_mag = replicate N 0,
        gs_b_mag = replicate N 0,
        gs_b_gate = replicate N 0,
        gs_d_hidden = N,
        gs_M = M \<rparr>)"

text \<open>The locals of \<^verbatim>\<open>forward\<close>, each a function of the parameters and the input.\<close>

definition preactivations_hidden :: "GatedSAE \<Rightarrow> mat \<Rightarrow> mat" where
  "preactivations_hidden st X =
     matmul (gs_d_hidden st) (sub_vec X (gs_b_dec st)) (gs_W_gate st)"

definition pre_mag_hidden :: "GatedSAE \<Rightarrow> mat \<Rightarrow> mat" where
  "pre_mag_hidden st X =
     add_vec (mul_vec (preactivations_hidden st X) (map torch_exp (gs_r_mag st))) (gs_b_mag st)"

definition post_mag_hidden :: "GatedSAE \<Rightarrow> mat \<Rightarrow> mat" where
  "post_mag_hidden st X = map (map relu) (pre_mag_hidden st X)"

definition pre_gate_hidden :: "GatedSAE \<Rightarrow> mat \<Rightarrow> mat" where
  "pre_gate_hidden st X = add_vec (preactivations_hidden st X) (gs_b_gate st)"

definition post_gate_hidden :: "GatedSAE \<Rightarrow> mat \<Rightarrow> mat" where
  "post_gate_hidden st X = map (map (\<lambda>p. (sgn p + 1) / 2)) (pre_gate_hidden st X)"

definition GatedSAE_forward :: "GatedSAE \<Rightarrow> mat \<Rightarrow> GatedSAE \<times> (mat \<times> mat \<times> mat)" where
  "GatedSAE_forward st X =
     (let st' = (if gs_learn_D st then st\<lparr>gs_D := normalize_rows (gs_D st)\<rparr> else st);
          S' = mat_mul (post_mag_hidden st' X) (post_gate_hidden st' X);
          X' = add_vec (matmul (gs_M st') S' (gs_D st')) (gs_b_dec st')
      in (st', (S', X', pre_gate_hidden st' X)))"

definition GatedSAE_loss_forward ::
  "GatedSAE \<Rightarrow> mat \<Rightarrow> real \<Rightarrow> GatedSAE \<times> (mat \<times> mat \<times> real)" where
  "GatedSAE_loss_forward st X l1_weight =
     (case GatedSAE_forward st X of
        (st', (S', X', pre_gate)) \<Rightarrow>
          (let gate_magnitude = map (map relu) pre_gate;
               gate_reconstruction =
                 add_vec (matmul (gs_M st') gate_magnitude (gs_D st')) (gs_b_dec st');
               auxiliary_loss = mse_loss_mean gate_reconstruction X
           in (st', (S', X',
                 mse_loss_mean X' X + l1_weight * sum_all gate_magnitude + auxiliary_loss))))"

text \<open>
  \<^verbatim>\<open>make_decoder_weights_and_grad_unit_norm\<close>. \<^verbatim>\<open>D_normed\<close> and \<^verbatim>\<open>D_grad_proj\<close> are locals;
  the only assignment is the in-place subtraction from \<^verbatim>\<open>D_.grad\<close>. Without a stored
  gradient the product \<^verbatim>\<open>self.D_.grad * D_normed\<close> raises a \<^verbatim>\<open>TypeError\<close>.
\<close>

definition D_normed :: "GatedSAE \<Rightarrow> mat" where
  "D_normed st = normalize_rows (gs_D st)"

definition D_grad_proj :: "mat \<Rightarrow> mat \<Rightarrow> mat" where
  "D_grad_proj grad Dn = map2 (\<lambda>g n. map (\<lambda>x. dot g n * x) n) grad Dn"

definition make_decoder_weights_and_grad_unit_norm :: "GatedSAE \<Rightarrow> error + GatedSAE" where
  "make_decoder_weights_and_grad_unit_norm st =
     (case gs_D_grad st of
        None \<Rightarrow> Inl TypeError
      | Some grad \<Rightarrow>
          Inr (st\<lparr>gs_D_grad := Some (mat_sub grad (D_grad_proj grad (D_normed st)))\<rparr>))"


section \<open>TopK and TopKSAE\<close>

text \<open>
  \<^verbatim>\<open>torch.topk(x, k, dim=-1)\<close> raises a \<^verbatim>\<open>RuntimeError\<close> (selected index k out of range)
  unless \<open>0 \<le> k\<close> and \<open>k\<close> is at most the size of the last dimension. Otherwise it returns,
  for every row, the indices of \<open>k\<close> largest entries, largest first. The library does not
  say which of several equal entries it takes, so its result is not a function of the
  input here: the index tensor it returned, \<^verbatim>\<open>topk.indices\<close>, is an argument \<open>idxs\<close> of the
  model, and \<open>topk_result\<close> says what the library promises of it. \<open>is_topk k x idx\<close>: \<open>idx\<close>
  holds \<open>k\<close> distinct positions of the row \<open>x\<close>, their entries are in descending order,
  and no position outside \<open>idx\<close> holds a larger entry than a position inside.
\<close>

definition is_topk :: "nat \<Rightarrow> vec \<Rightarrow> nat list \<Rightarrow> bool" where
  "is_topk k x idx =
     (length idx = k \<and> distinct idx \<and> list_all (\<lambda>i. i < length x) idx \<and>
      sorted_wrt (\<lambda>a b. b \<le> a) (map (\<lambda>i. x ! i) idx) \<and>
      list_all (\<lambda>j. j \<in> set idx \<or> list_all (\<lambda>i. x ! j \<le> x ! i) idx) [0..<length x])"

definition topk_result :: "nat \<Rightarrow> mat \<Rightarrow> nat list list \<Rightarrow> bool" where
  "topk_result k x idxs = list_all2 (is_topk k) x idxs"

text \<open>
  One result the library may return: among equal entries the one of lowest index first.
  It shows that \<open>is_topk\<close> can be met for every \<open>k\<close> in range, and is used for nothing else.
\<close>

definition topk_indices :: "vec \<Rightarrow> nat \<Rightarrow> nat list" where
  "topk_indices x k = take k (sort_key (\<lambda>i. - (x ! i)) [0..<length x])"

text \<open>
  \<^verbatim>\<open>result.scatter_(-1, index, src)\<close> on one row: \<open>result[index[j]] = src[j]\<close> for every
  position \<open>j\<close> of \<open>index\<close>. (An index out of range raises in the library and is skipped by
  the list update; the indices of a top-k selection are in range.)
\<close>

definition scatter :: "vec \<Rightarrow> nat list \<Rightarrow> vec \<Rightarrow> vec" where
  "scatter result idx src = foldl (\<lambda>r (i, v). r[i := v]) result (zip idx src)"

text \<open>
  The body of \<^verbatim>\<open>TopK.forward\<close> on one row \<open>x\<close> with the row \<open>idx\<close> of \<^verbatim>\<open>topk.indices\<close>;
  \<^verbatim>\<open>topk.values\<close> are the entries of \<open>x\<close> at \<open>idx\<close>.
\<close>

definition TopK_row :: "(real \<Rightarrow> real) \<Rightarrow> nat list \<Rightarrow> vec \<Rightarrow> vec" where
  "TopK_row postact_fn idx x =
     (let values = map postact_fn (map (\<lambda>i. x ! i) idx);
          result = replicate (length x) 0
      in scatter result idx values)"

text \<open>
  \<^verbatim>\<open>TopK.forward\<close> on a batch whose last dimension has size \<open>n\<close>. \<open>k\<close> is a Python \<^verbatim>\<open>int\<close>.
  The range check is the library's, on the shape, so it also fails on a batch of no rows.
  \<^verbatim>\<open>postact_fn\<close> is an element-wise activation (\<^verbatim>\<open>nn.ReLU()\<close> by default). Row \<open>b\<close> of the
  result is built from row \<open>b\<close> of the input and row \<open>b\<close> of \<open>idxs\<close>.
\<close>

definition TopK_forward ::
  "nat \<Rightarrow> int \<Rightarrow> (real \<Rightarrow> real) \<Rightarrow> nat list list \<Rightarrow> mat \<Rightarrow> error + mat" where
  "TopK_forward n k postact_fn idxs x =
     (if 0 \<le> k \<and> k \<le> int n
      then Inr (map (\<lambda>b. TopK_row postact_fn (idxs ! b) (x ! b)) [0..<length x])
      else Inl RuntimeError)"

text \<open>
  \<open>tk_W\<close> is the weight of \<^verbatim>\<open>nn.Linear(M, N, bias=False)\<close>, \<open>N\<close> by \<open>M\<close>; \<open>tk_k\<close> and
  \<open>tk_postact_fn\<close> are the fields of the \<^verbatim>\<open>TopK\<close> module \<^verbatim>\<open>activation\<close>.
\<close>

record TopKSAE =
  tk_learn_D :: bool
  tk_W :: mat
  tk_latent_bias :: vec
  tk_k :: int
  tk_postact_fn :: "real \<Rightarrow> real"
  tk_D :: mat
  tk_pre_bias :: vec
  tk_M :: nat

definition TopKSAE_init ::
  "mat \<Rightarrow> nat \<Rightarrow> bool \<Rightarrow> int \<Rightarrow> (real \<Rightarrow> real) \<Rightarrow> mat \<Rightarrow> mat \<Rightarrow> TopKSAE" where
  "TopKSAE_init D M learn_D k postact_fn rndW rnd =
     \<lparr> tk_learn_D = learn_D,
       tk_W = rndW,
       tk_latent_bias = replicate (length D) 0,
       tk_k = k,
       tk_postact_fn = postact_fn,
       tk_D = (if learn_D then rnd else D),
       tk_pre_bias = replicate M 0,
       tk_M = M \<rparr>"

text \<open>
  \<^verbatim>\<open>forward\<close>. The pre-activation has the width of the encoder's output, the number of rows
  of \<open>tk_W\<close>. The dictionary is divided before the top-k selection can raise, so the new
  parameters are returned with the error too. \<open>idxs\<close> is the index tensor that the
  top-k selection of this call returned.
\<close>

definition S_pre_act :: "TopKSAE \<Rightarrow> mat \<Rightarrow> mat" where
  "S_pre_act st X =
     add_vec (linear_nobias (tk_W st) (sub_vec X (tk_pre_bias st))) (tk_latent_bias st)"

definition TopKSAE_forward ::
  "TopKSAE \<Rightarrow> nat list list \<Rightarrow> mat \<Rightarrow> TopKSAE \<times> (error + mat \<times> mat)" where
  "TopKSAE_forward st idxs X =
     (let st' = (if tk_learn_D st then st\<lparr>tk_D := normalize_rows (tk_D st)\<rparr> else st)
      in case TopK_forward (length (tk_W st')) (tk_k st') (tk_postact_fn st') idxs
                (S_pre_act st' X) of
           Inl e \<Rightarrow> (st', Inl e)
         | Inr S' \<Rightarrow>
             (st', Inr (S', add_vec (matmul (tk_M st') S' (tk_D st')) (tk_pre_bias st'))))"

definition TopKSAE_loss_forward ::
  "TopKSAE \<Rightarrow> nat list list \<Rightarrow> mat \<Rightarrow> real \<Rightarrow> TopKSAE \<times> (error + mat \<times> mat \<times> real)" where
  "TopKSAE_loss_forward st idxs X weight =
     (case TopKSAE_forward st idxs X of
        (st', Inl e) \<Rightarrow> (st', Inl e)
      | (st', Inr (S', X')) \<Rightarrow> (st', Inr (S', X', mse_loss_sum X' X)))"


section \<open>Sequences of calls\<close>

text \<open>
  A caller's calls of \<^verbatim>\<open>forward\<close> and \<^verbatim>\<open>loss_forward\<close> on one model, and the parameters they
  leave. A call that raises leaves the parameters as they were when it raised.
\<close>

datatype call = Forward mat | LossForward mat real

definition SparseCoding_call :: "SparseCoding \<Rightarrow> call \<Rightarrow> SparseCoding" where
  "SparseCoding_call st c =
     (case c of Forward X \<Rightarrow> fst (SparseCoding_forward st (Some X))
              | LossForward X w \<Rightarrow> fst (SparseCoding_loss_forward st X w))"

definition SparseAutoEncoder_call :: "SparseAutoEncoder \<Rightarrow> call \<Rightarrow> SparseAutoEncoder" where
  "SparseAutoEncoder_call st c =
     (case c of Forward X \<Rightarrow> fst (SparseAutoEncoder_forward st X)
              | LossForward X w \<Rightarrow> fst (SparseAutoEncoder_loss_forward st X w))"

definition GatedSAE_call :: "GatedSAE \<Rightarrow> call \<Rightarrow> GatedSAE" where
  "GatedSAE_call st c =
     (case c of Forward X \<Rightarrow> fst (GatedSAE_forward st X)
              | LossForward X w \<Rightarrow> fst (GatedSAE_loss_forward st X w))"

text \<open>A call on the top-k model comes with the index tensor its selection returned.\<close>

definition TopKSAE_call :: "TopKSAE \<Rightarrow> nat list list \<times> call \<Rightarrow> TopKSAE" where
  "TopKSAE_call st ic =
     (case snd ic of Forward X \<Rightarrow> fst (TopKSAE_forward st (fst ic) X)
                   | LossForward X w \<Rightarrow> fst (TopKSAE_loss_forward st (fst ic) X w))"


section \<open>Predicates of the statements\<close>

definition unit_rows :: "mat \<Rightarrow> bool" where
  "unit_rows D = list_all (\<lambda>r. row_norm r = 1) D"

definition nonzero_rows :: "mat \<Rightarrow> bool" where
  "nonzero_rows D = list_all (list_ex (\<lambda>x. x \<noteq> 0)) D"




section \<open>Example models\<close>

text \<open>
  Small models for evaluating the definitions: one atom \<open>(3, 4)\<close> of width 2 (two atoms for
  the top-k model). \<open>gs_example\<close> is a gated model after an optimizer step has moved its
  dictionary off the unit sphere and a backward pass has stored a gradient;
  \<open>sc_underflow\<close> is a sparse-coding model whose optimizer has driven a log-code to \<open>-200\<close>.
\<close>

definition sc_example :: SparseCoding where
  "sc_example = SparseCoding_init [[0, 0]] [[3, 4]] 2 True [[3, 4]]"


definition sae_example :: SparseAutoEncoder where
  "sae_example = SparseAutoEncoder_init [[3, 4]] 2 True True [[1, 0]] [0] [[3, 4]]"

definition gs_example :: GatedSAE where
  "gs_example =
     (GatedSAE_init [[3, 4]] 2 True [[3, 4]] [[1], [1]])
       \<lparr>gs_D := [[3, 4]], gs_D_grad := Some [[1, 2]]\<rparr>"

definition tk_example :: "int \<Rightarrow> TopKSAE" where
  "tk_example k = TopKSAE_init [[3, 4], [0, 1]] 2 True k relu [[1, 0], [0, 1]] [[3, 4], [0, 1]]"


section \<open>Auxiliary facts\<close>

subsection \<open>Norms and dot products\<close>

lemma sum_sq_nonneg: "0 \<le> (\<Sum>x\<leftarrow>r. (x::real)\<^sup>2)"
  by (induction r) simp_all

lemma sum_sq_zero_iff: "(\<Sum>x\<leftarrow>r. (x::real)\<^sup>2) = 0 \<longleftrightarrow> \<not> list_ex (\<lambda>x. x \<noteq> 0) r"
proof (induction r)
  case Nil
  show ?case by simp
next
  case (Cons a r)
  have "a\<^sup>2 + (\<Sum>x\<leftarrow>r. x\<^sup>2) = 0 \<longleftrightarrow> a\<^sup>2 = 0 \<and> (\<Sum>x\<leftarrow>r. x\<^sup>2) = 0"
    using sum_sq_nonneg [of r] zero_le_power2 [of a] by linarith
  with Cons show ?case by simp
qed

lemma row_norm_zero_iff: "row_norm r = 0 \<longleftrightarrow> \<not> list_ex (\<lambda>x. x \<noteq> 0) r"
  by (simp add: row_norm_def sum_sq_zero_iff)

lemma sum_sq_scaled: "(\<Sum>x\<leftarrow>r. (x / c)\<^sup>2) = (\<Sum>x\<leftarrow>r. (x::real)\<^sup>2) / c\<^sup>2"
  by (induction r) (simp_all add: power_divide add_divide_distrib)

lemma dot_self: "dot r r = (\<Sum>x\<leftarrow>r. x\<^sup>2)"
  by (induction r) (simp_all add: dot_def power2_eq_square)

lemma row_norm_normalized:
  assumes "list_ex (\<lambda>x. x \<noteq> 0) r"
  shows "row_norm (map (\<lambda>x. x / row_norm r) r) = 1"
proof -
  let ?s = "\<Sum>x\<leftarrow>r. x\<^sup>2"
  have pos: "0 < ?s"
    using assms sum_sq_nonneg [of r] sum_sq_zero_iff [of r] by (simp add: less_le)
  have "(\<Sum>x\<leftarrow>r. (x / sqrt ?s)\<^sup>2) = ?s / (sqrt ?s)\<^sup>2"
    by (rule sum_sq_scaled)
  also have "\<dots> = 1" using pos by simp
  finally show ?thesis by (simp add: row_norm_def comp_def)
qed

lemma unit_rows_normalize_rows: "nonzero_rows D \<Longrightarrow> unit_rows (normalize_rows D)"
  by (simp add: nonzero_rows_def unit_rows_def normalize_rows_def list_all_iff row_norm_normalized)

lemma dot_normalized:
  assumes "list_ex (\<lambda>x. x \<noteq> 0) r"
  shows "dot (map (\<lambda>x. x / row_norm r) r) (map (\<lambda>x. x / row_norm r) r) = 1"
proof -
  let ?s = "\<Sum>x\<leftarrow>r. x\<^sup>2"
  have pos: "0 < ?s"
    using assms sum_sq_nonneg [of r] sum_sq_zero_iff [of r] by (simp add: less_le)
  have "dot (map (\<lambda>x. x / row_norm r) r) (map (\<lambda>x. x / row_norm r) r)
        = (\<Sum>x\<leftarrow>r. (x / row_norm r)\<^sup>2)"
    by (simp add: dot_self comp_def)
  also have "\<dots> = ?s / (row_norm r)\<^sup>2"
    by (rule sum_sq_scaled)
  also have "\<dots> = 1"
    using pos by (simp add: row_norm_def)
  finally show ?thesis .
qed

lemma dot_sub_scaled:
  "length g = length n \<Longrightarrow>
   dot (map2 (-) g (map (\<lambda>x. c * x) n)) n = dot g n - c * dot n n"
  by (induction g n rule: list_induct2) (simp_all add: dot_def algebra_simps)

lemma length_normalize_rows: "length (normalize_rows D) = length D"
  by (simp add: normalize_rows_def)

lemma grad_row_orthogonal:
  assumes "list_ex (\<lambda>x. x \<noteq> 0) r" and "length g = length r"
  shows "dot (map2 (-) g (map (\<lambda>x. dot g (map (\<lambda>x. x / row_norm r) r) * x)
                              (map (\<lambda>x. x / row_norm r) r)))
             (map (\<lambda>x. x / row_norm r) r) = 0"
proof -
  let ?n = "map (\<lambda>x. x / row_norm r) r"
  have "length g = length ?n" using assms(2) by simp
  then have "dot (map2 (-) g (map (\<lambda>x. dot g ?n * x) ?n)) ?n = dot g ?n - dot g ?n * dot ?n ?n"
    by (rule dot_sub_scaled)
  then show ?thesis using dot_normalized [OF assms(1)] by simp
qed

lemma make_decoder_keeps_D:
  "make_decoder_weights_and_grad_unit_norm st = Inr st' \<Longrightarrow> gs_D st' = gs_D st"
  by (auto simp: make_decoder_weights_and_grad_unit_norm_def split: option.splits)

lemma sqrt_25: "sqrt 25 = 5"
  using real_sqrt_abs [of 5] by simp

subsection \<open>Scatter and top-k selection\<close>

lemma foldl_update_length:
  "length (foldl (\<lambda>r (i, v). r[i := v]) res ps) = length res"
  by (induction ps arbitrary: res) (simp_all add: split_beta)

lemma foldl_update_other:
  "i \<notin> fst ` set ps \<Longrightarrow> foldl (\<lambda>r (i, v). r[i := v]) res ps ! i = res ! i"
  by (induction ps arbitrary: res) (auto simp: split_beta)

lemma foldl_update_hit:
  "distinct (map fst ps) \<Longrightarrow> (i, v) \<in> set ps \<Longrightarrow> i < length res \<Longrightarrow>
   foldl (\<lambda>r (i, v). r[i := v]) res ps ! i = v"
proof (induction ps arbitrary: res)
  case Nil
  then show ?case by simp
next
  case (Cons p ps)
  show ?case
  proof (cases "(i, v) = p")
    case True
    have "fst p \<notin> set (map fst ps)" using Cons.prems(1) by simp
    then have "i \<notin> fst ` set ps" using True by (force simp: image_iff)
    then have "foldl (\<lambda>r (i, v). r[i := v]) (res[i := v]) ps ! i = res[i := v] ! i"
      by (rule foldl_update_other)
    then show ?thesis
      using True Cons.prems(3) by auto
  next
    case False
    then have "(i, v) \<in> set ps" using Cons.prems(2) by simp
    moreover have "distinct (map fst ps)" using Cons.prems(1) by simp
    ultimately show ?thesis
      using Cons.IH [of "res[fst p := snd p]"] Cons.prems(3) by (simp add: split_beta)
  qed
qed


lemma scatter_length: "length (scatter res idx src) = length res"
  by (simp add: scatter_def foldl_update_length)

lemma scatter_other: "i \<notin> set idx \<Longrightarrow> scatter res idx src ! i = res ! i"
proof -
  assume "i \<notin> set idx"
  then have "i \<notin> fst ` set (zip idx src)"
    by (auto dest: set_zip_leftD)
  then show ?thesis by (simp add: scatter_def foldl_update_other)
qed

lemma scatter_hit:
  assumes "distinct idx" and "length src = length idx" and "j < length idx"
    and "idx ! j < length res"
  shows "scatter res idx src ! (idx ! j) = src ! j"
proof -
  have "distinct (map fst (zip idx src))" using assms(1,2) by simp
  moreover have "(idx ! j, src ! j) \<in> set (zip idx src)"
    using assms(2,3) by (auto simp: set_zip)
  ultimately show ?thesis
    using assms(4) by (simp add: scatter_def foldl_update_hit)
qed


lemma sorted_take_le_drop:
  assumes "sorted (map f l)" and "a \<in> set (take k l)" and "b \<in> set (drop k l)"
  shows "f a \<le> f b"
proof -
  have "sorted (map f (take k l) @ map f (drop k l))"
    using assms(1) by (simp flip: map_append)
  then show ?thesis using assms(2,3) by (auto simp: sorted_append)
qed

lemma topk_indices_length: "k \<le> length x \<Longrightarrow> length (topk_indices x k) = k"
  by (simp add: topk_indices_def)

lemma topk_indices_distinct: "distinct (topk_indices x k)"
  by (simp add: topk_indices_def)

lemma topk_indices_range: "i \<in> set (topk_indices x k) \<Longrightarrow> i < length x"
  by (auto simp: topk_indices_def dest: in_set_takeD)

lemma topk_indices_largest:
  assumes "i \<in> set (topk_indices x k)" and "j < length x" and "j \<notin> set (topk_indices x k)"
  shows "x ! j \<le> x ! i"
proof -
  let ?l = "sort_key (\<lambda>i. - (x ! i)) [0..<length x]"
  have "j \<in> set ?l" using assms(2) by simp
  then have "j \<in> set (take k ?l) \<union> set (drop k ?l)"
    by (simp flip: set_append)
  then have "j \<in> set (drop k ?l)" using assms(3) by (simp add: topk_indices_def)
  moreover have "sorted (map (\<lambda>i. - (x ! i)) ?l)" by (rule sorted_sort_key)
  moreover have "i \<in> set (take k ?l)" using assms(1) by (simp add: topk_indices_def)
  ultimately have "- (x ! i) \<le> - (x ! j)"
    using sorted_take_le_drop [of "\<lambda>i. - (x ! i)" ?l i k j] by simp
  then show ?thesis by simp
qed

lemma topk_indices_descending:
  "sorted_wrt (\<lambda>a b. b \<le> a) (map (\<lambda>i. x ! i) (topk_indices x k))"
proof -
  let ?l = "sort_key (\<lambda>i. - (x ! i)) [0..<length x]"
  have "sorted (map (\<lambda>i. - (x ! i)) ?l)" by (rule sorted_sort_key)
  then have "sorted_wrt (\<lambda>a b. - (x ! a) \<le> - (x ! b)) ?l"
    by (simp add: sorted_wrt_map)
  then have "sorted_wrt (\<lambda>a b. - (x ! a) \<le> - (x ! b)) (take k ?l)"
    by (rule sorted_wrt_take)
  then show ?thesis
    by (simp add: topk_indices_def sorted_wrt_map)
qed

lemma topk_indices_is_topk:
  assumes "k \<le> length x"
  shows "is_topk k x (topk_indices x k)"
  using assms topk_indices_range [of _ x k] topk_indices_largest [of _ x k]
  by (auto simp: is_topk_def topk_indices_length topk_indices_distinct topk_indices_descending
      list_all_iff)

lemma is_topk_length: "is_topk k x idx \<Longrightarrow> length idx = k"
  by (simp add: is_topk_def)

lemma is_topk_distinct: "is_topk k x idx \<Longrightarrow> distinct idx"
  by (simp add: is_topk_def)

lemma is_topk_range: "is_topk k x idx \<Longrightarrow> i \<in> set idx \<Longrightarrow> i < length x"
  by (simp add: is_topk_def list_all_iff)

lemma is_topk_largest:
  "is_topk k x idx \<Longrightarrow> i \<in> set idx \<Longrightarrow> j < length x \<Longrightarrow> j \<notin> set idx \<Longrightarrow> x ! j \<le> x ! i"
  by (auto simp: is_topk_def list_all_iff)

lemma has_width_nth: "has_width m A \<Longrightarrow> i < length A \<Longrightarrow> length (A ! i) = m"
  by (simp add: has_width_def list_all_length)

lemma TopK_row_length: "length (TopK_row f idx x) = length x"
  by (simp add: TopK_row_def scatter_length)

lemma TopK_row_selected:
  assumes "distinct idx" and "i \<in> set idx" and "i < length x"
  shows "TopK_row f idx x ! i = f (x ! i)"
proof -
  obtain j where j: "j < length idx" "idx ! j = i"
    using assms(2) by (auto simp: in_set_conv_nth)
  have "scatter (replicate (length x) 0) idx (map f (map (\<lambda>i. x ! i) idx)) ! (idx ! j)
          = map f (map (\<lambda>i. x ! i) idx) ! j"
    using j assms(1,3) by (intro scatter_hit) simp_all
  then show ?thesis using j by (simp add: TopK_row_def)
qed

lemma TopK_row_unselected:
  assumes "j < length x" and "j \<notin> set idx"
  shows "TopK_row f idx x ! j = 0"
  using assms by (simp add: TopK_row_def scatter_other)


subsection \<open>The single-precision exponential\<close>






subsection \<open>Non-negative codes\<close>




subsection \<open>The squared error as a sum over entries\<close>

lemma sum_list_nth_sum: "sum_list (xs :: real list) = (\<Sum>i<length xs. xs ! i)"
  by (simp add: sum_list_sum_nth atLeast0LessThan)

lemma mse_loss_sum_entries:
  assumes "length A = length B" and "has_width m A" and "has_width m B"
  shows "mse_loss_sum A B = (\<Sum>i<length B. \<Sum>j<m. (A ! i ! j - B ! i ! j)\<^sup>2)"
proof -
  have row: "sum_list (map (\<lambda>d. d\<^sup>2) (map2 (-) (A ! i) (B ! i)))
             = (\<Sum>j<m. (A ! i ! j - B ! i ! j)\<^sup>2)" if "i < length B" for i
  proof -
    have "length (A ! i) = m" "length (B ! i) = m"
      using assms that by (simp_all add: has_width_nth)
    then show ?thesis by (simp add: sum_list_nth_sum)
  qed
  have "mse_loss_sum A B
        = (\<Sum>i<length B. sum_list (map (\<lambda>d. d\<^sup>2) (map2 (-) (A ! i) (B ! i))))"
    using assms(1) by (simp add: mse_loss_sum_def sum_all_def mat_sub_def sum_list_nth_sum)
  also have "\<dots> = (\<Sum>i<length B. \<Sum>j<m. (A ! i ! j - B ! i ! j)\<^sup>2)"
    using row by simp
  finally show ?thesis .
qed

lemma TopKSAE_forward_shape:
  assumes "TopKSAE_forward st idxs X = (st', Inr (S', X'))"
    and "length (tk_pre_bias st) = tk_M st"
  shows "length X' = length X \<and> has_width (tk_M st) X'"
  using assms
  by (auto simp: TopKSAE_forward_def TopK_forward_def S_pre_act_def add_vec_def matmul_def
      linear_nobias_def sub_vec_def has_width_def list_all_iff Let_def
      split: sum.splits if_splits)

subsection \<open>Calls on a model with a fixed dictionary\<close>

lemma SparseCoding_call_fixed:
  "\<not> sc_learn_D st \<Longrightarrow> \<not> sc_learn_D (SparseCoding_call st c) \<and> sc_D (SparseCoding_call st c) = sc_D st"
  by (cases c)
     (simp_all add: SparseCoding_call_def SparseCoding_forward_def SparseCoding_loss_forward_def
       Let_def)

lemma SparseAutoEncoder_call_fixed:
  "\<not> sae_learn_D st \<Longrightarrow>
   \<not> sae_learn_D (SparseAutoEncoder_call st c) \<and> sae_D (SparseAutoEncoder_call st c) = sae_D st"
  by (cases c)
     (simp_all add: SparseAutoEncoder_call_def SparseAutoEncoder_forward_def
       SparseAutoEncoder_loss_forward_def Let_def)

lemma GatedSAE_call_fixed:
  "\<not> gs_learn_D st \<Longrightarrow> \<not> gs_learn_D (GatedSAE_call st c) \<and> gs_D (GatedSAE_call st c) = gs_D st"
  by (cases c)
     (simp_all add: GatedSAE_call_def GatedSAE_forward_def GatedSAE_loss_forward_def Let_def)

lemma TopKSAE_call_fixed:
  "\<not> tk_learn_D st \<Longrightarrow> \<not> tk_learn_D (TopKSAE_call st ic) \<and> tk_D (TopKSAE_call st ic) = tk_D st"
  by (cases "snd ic")
     (simp_all add: TopKSAE_call_def TopKSAE_forward_def TopKSAE_loss_forward_def Let_def
       split: sum.splits prod.splits)

lemma SparseCoding_calls_fixed:
  "\<not> sc_learn_D st \<Longrightarrow> sc_D (foldl SparseCoding_call st cs) = sc_D st"
  by (induction cs arbitrary: st) (simp_all add: SparseCoding_call_fixed)

lemma SparseAutoEncoder_calls_fixed:
  "\<not> sae_learn_D st \<Longrightarrow> sae_D (foldl SparseAutoEncoder_call st cs) = sae_D st"
  by (induction cs arbitrary: st) (simp_all add: SparseAutoEncoder_call_fixed)

lemma GatedSAE_calls_fixed:
  "\<not> gs_learn_D st \<Longrightarrow> gs_D (foldl GatedSAE_call st cs) = gs_D st"
  by (induction cs arbitrary: st) (simp_all add: GatedSAE_call_fixed)

lemma TopKSAE_calls_fixed:
  "\<not> tk_learn_D st \<Longrightarrow> tk_D (foldl TopKSAE_call st cs) = tk_D st"
  by (induction cs arbitrary: st) (simp_all add: TopKSAE_call_fixed)


section \<open>Properties\<close>

text \<open>
  C9. The result of \<^verbatim>\<open>SparseCoding.forward\<close> does not depend on its argument: for any two
  arguments (the default \<^verbatim>\<open>None\<close> included) and the same parameters it returns the same
  new parameters and the same pair, and that pair is \<open>exp(log_S_)\<close> and its product with
  the dictionary as the call leaves it.
\<close>

theorem SparseCoding_forward_ignores_X:
  "SparseCoding_forward st X1 = SparseCoding_forward st X2 \<and>
   fst (snd (SparseCoding_forward st X1)) = map (map torch_exp) (sc_log_S st) \<and>
   snd (snd (SparseCoding_forward st X1)) =
     matmul (sc_M st) (map (map torch_exp) (sc_log_S st))
       (sc_D (fst (SparseCoding_forward st X1)))"
  by (simp add: SparseCoding_forward_def Let_def)

text \<open>
  C5. After \<^verbatim>\<open>make_decoder_weights_and_grad_unit_norm\<close>, called with a stored gradient of
  the dictionary's shape and a dictionary without a zero row, the call returns, and the
  dot product of every row of the stored gradient with the normalized direction of the
  same dictionary row (as it was before the call) is 0.
\<close>

theorem grad_orthogonal_to_direction:
  assumes "gs_D_grad st = Some grad"
    and "nonzero_rows (gs_D st)"
    and "list_all2 (\<lambda>g r. length g = length r) grad (gs_D st)"
  shows "\<exists>st' grad'. make_decoder_weights_and_grad_unit_norm st = Inr st' \<and>
           gs_D_grad st' = Some grad' \<and> length grad' = length (gs_D st) \<and>
           (\<forall>i<length (gs_D st). dot (grad' ! i) (D_normed st ! i) = 0)"
proof -
  let ?grad' = "mat_sub grad (D_grad_proj grad (D_normed st))"
  have len: "length grad = length (gs_D st)"
    using assms(3) by (rule list_all2_lengthD)
  have len': "length ?grad' = length (gs_D st)"
    using len by (simp add: mat_sub_def D_grad_proj_def D_normed_def normalize_rows_def)
  have orth: "dot (?grad' ! i) (D_normed st ! i) = 0" if "i < length (gs_D st)" for i
  proof -
    have nz: "list_ex (\<lambda>x. x \<noteq> 0) (gs_D st ! i)"
      using assms(2) that by (simp add: nonzero_rows_def list_all_length)
    have lg: "length (grad ! i) = length (gs_D st ! i)"
      using assms(3) that by (simp add: list_all2_conv_all_nth)
    show ?thesis
      using that len grad_row_orthogonal [OF nz lg]
      by (simp add: mat_sub_def D_grad_proj_def D_normed_def normalize_rows_def)
  qed
  show ?thesis
    using assms(1) len' orth
    by (simp add: make_decoder_weights_and_grad_unit_norm_def)
qed

theorem grad_orthogonal_to_direction_witness:
  "gs_D_grad gs_example = Some [[1, 2]] \<and> nonzero_rows (gs_D gs_example) \<and>
   list_all2 (\<lambda>g r. length g = length r) [[1, 2]] (gs_D gs_example) \<and>
   (\<exists>st' grad'. make_decoder_weights_and_grad_unit_norm gs_example = Inr st' \<and>
      gs_D_grad st' = Some grad' \<and> dot (grad' ! 0) (D_normed gs_example ! 0) = 0)"
proof -
  have h1: "gs_D_grad gs_example = Some [[1, 2]]"
    by (simp add: gs_example_def)
  have h2: "nonzero_rows (gs_D gs_example)"
    by (simp add: gs_example_def nonzero_rows_def)
  have h3: "list_all2 (\<lambda>g r. length g = length r) [[1, 2]] (gs_D gs_example)"
    by (simp add: gs_example_def)
  have "length (gs_D gs_example) = 1"
    by (simp add: gs_example_def)
  with grad_orthogonal_to_direction [OF h1 h2 h3] h1 h2 h3 show ?thesis
    by auto
qed

text \<open>
  C4. \<^verbatim>\<open>make_decoder_weights_and_grad_unit_norm\<close> leaves the stored dictionary as it was:
  on the example model, whose only row \<open>(3, 4)\<close> has norm 5, the call returns and the row
  still has norm 5, not 1.
\<close>

theorem decoder_weights_not_normalized:
  "\<exists>st'. make_decoder_weights_and_grad_unit_norm gs_example = Inr st' \<and>
     gs_D st' = [[3, 4]] \<and> row_norm (gs_D st' ! 0) = 5 \<and> \<not> unit_rows (gs_D st')"
  by (simp add: make_decoder_weights_and_grad_unit_norm_def gs_example_def GatedSAE_init_def
      unit_rows_def row_norm_def sqrt_25)

text \<open>
  C2. For each of the four models with \<^verbatim>\<open>learn_D\<close> true and a dictionary without a zero
  row, every row of the dictionary has L2 norm 1 after a call of \<^verbatim>\<open>forward\<close> (for the
  top-k model also after a call that raises).
\<close>

theorem forward_normalizes_dictionary:
  "(sc_learn_D sc \<and> nonzero_rows (sc_D sc) \<longrightarrow>
      unit_rows (sc_D (fst (SparseCoding_forward sc X0)))) \<and>
   (sae_learn_D sae \<and> nonzero_rows (sae_D sae) \<longrightarrow>
      unit_rows (sae_D (fst (SparseAutoEncoder_forward sae X)))) \<and>
   (gs_learn_D gs \<and> nonzero_rows (gs_D gs) \<longrightarrow>
      unit_rows (gs_D (fst (GatedSAE_forward gs X)))) \<and>
   (tk_learn_D tk \<and> nonzero_rows (tk_D tk) \<longrightarrow>
      unit_rows (tk_D (fst (TopKSAE_forward tk idxs X))))"
  by (simp add: SparseCoding_forward_def SparseAutoEncoder_forward_def GatedSAE_forward_def
      TopKSAE_forward_def Let_def unit_rows_normalize_rows split: sum.split)

theorem forward_normalizes_dictionary_witness:
  "(sc_learn_D sc_example \<and> nonzero_rows (sc_D sc_example) \<and>
      unit_rows (sc_D (fst (SparseCoding_forward sc_example None)))) \<and>
   (sae_learn_D sae_example \<and> nonzero_rows (sae_D sae_example) \<and>
      unit_rows (sae_D (fst (SparseAutoEncoder_forward sae_example [[1, 1]])))) \<and>
   (gs_learn_D gs_example \<and> nonzero_rows (gs_D gs_example) \<and>
      unit_rows (gs_D (fst (GatedSAE_forward gs_example [[1, 1]])))) \<and>
   (tk_learn_D (tk_example 1) \<and> nonzero_rows (tk_D (tk_example 1)) \<and>
      unit_rows (tk_D (fst (TopKSAE_forward (tk_example 1) [[0]] [[1, 1]]))))"
  using forward_normalizes_dictionary
    [of sc_example None sae_example "[[1, 1]]" gs_example "tk_example 1" "[[0]]"]
  by (simp add: sc_example_def sae_example_def gs_example_def tk_example_def
      SparseCoding_init_def SparseAutoEncoder_init_def GatedSAE_init_def TopKSAE_init_def
      nonzero_rows_def)

text \<open>
  C7. In \<^verbatim>\<open>GatedSAE.forward\<close> every entry of \<^verbatim>\<open>post_gate_hidden\<close> is 0 where the entry of
  \<^verbatim>\<open>pre_gate_hidden\<close> is negative, 1/2 where it is zero and 1 where it is positive, so it
  is one of 0, 1/2 and 1; the code returned is the product of the magnitude path with
  this gate, and the third result is \<^verbatim>\<open>pre_gate_hidden\<close>.
\<close>

theorem post_gate_values:
  "post_gate_hidden st X =
     map (map (\<lambda>p. if p < 0 then 0 else if p = 0 then 1 / 2 else 1)) (pre_gate_hidden st X) \<and>
   list_all (list_all (\<lambda>g. g = 0 \<or> g = 1 / 2 \<or> g = 1)) (post_gate_hidden st X) \<and>
   fst (snd (GatedSAE_forward st X)) =
     mat_mul (post_mag_hidden (fst (GatedSAE_forward st X)) X)
             (post_gate_hidden (fst (GatedSAE_forward st X)) X) \<and>
   snd (snd (snd (GatedSAE_forward st X))) = pre_gate_hidden (fst (GatedSAE_forward st X)) X"
proof -
  have g: "(sgn p + 1) / 2 = (if p < 0 then 0 else if p = 0 then 1 / 2 else 1)" for p :: real
    by (simp add: sgn_if)
  have "post_gate_hidden st X =
     map (map (\<lambda>p. if p < 0 then 0 else if p = 0 then 1 / 2 else 1)) (pre_gate_hidden st X)"
    unfolding post_gate_hidden_def g ..
  moreover have "list_all (list_all (\<lambda>g. g = 0 \<or> g = 1 / 2 \<or> g = 1)) (post_gate_hidden st X)"
    by (simp add: post_gate_hidden_def list_all_iff sgn_if)
  ultimately show ?thesis by (simp add: GatedSAE_forward_def Let_def)
qed

theorem post_gate_values_witness:
  "pre_gate_hidden gs_example [[0, 0], [1, 1], [- 1, - 1]] = [[0], [2], [- 2]] \<and>
   post_gate_hidden gs_example [[0, 0], [1, 1], [- 1, - 1]] = [[1 / 2], [1], [0]]"
  using post_gate_values [of gs_example "[[0, 0], [1, 1], [- 1, - 1]]"]
  by (simp add: pre_gate_hidden_def preactivations_hidden_def matmul_def sub_vec_def add_vec_def
      gs_example_def GatedSAE_init_def upt_rec)

text \<open>
  C1. For a batch \<open>x\<close> whose last dimension has size \<open>n\<close>, \<open>0 \<le> k \<le> n\<close>, and any index
  tensor \<open>idxs\<close> that the top-k selection may return on \<open>x\<close>, \<^verbatim>\<open>TopK.forward\<close> returns a batch
  of the same shape. In every row the selection has \<open>k\<close> distinct positions, no entry
  outside it is larger than an entry inside it, the result is \<^verbatim>\<open>postact_fn\<close> of the input
  entry at every selected position and exactly 0 at every other position.
\<close>

theorem TopK_forward_selects:
  assumes "0 \<le> k" and "k \<le> int n" and "has_width n x" and "topk_result (nat k) x idxs"
  shows "\<exists>res. TopK_forward n k f idxs x = Inr res \<and> length res = length x \<and> has_width n res \<and>
     (\<forall>b<length x.
        length (idxs ! b) = nat k \<and>
        distinct (idxs ! b) \<and>
        (\<forall>i\<in>set (idxs ! b).
           i < n \<and> res ! b ! i = f (x ! b ! i) \<and>
           (\<forall>j<n. j \<notin> set (idxs ! b) \<longrightarrow> x ! b ! j \<le> x ! b ! i)) \<and>
        (\<forall>j<n. j \<notin> set (idxs ! b) \<longrightarrow> res ! b ! j = 0))"
proof -
  let ?res = "map (\<lambda>b. TopK_row f (idxs ! b) (x ! b)) [0..<length x]"
  have run: "TopK_forward n k f idxs x = Inr ?res"
    using assms(1,2) by (simp add: TopK_forward_def)
  have width: "has_width n ?res"
    using assms(3) by (simp add: has_width_def list_all_length TopK_row_length)
  have row: "length (idxs ! b) = nat k \<and>
        distinct (idxs ! b) \<and>
        (\<forall>i\<in>set (idxs ! b).
           i < n \<and> ?res ! b ! i = f (x ! b ! i) \<and>
           (\<forall>j<n. j \<notin> set (idxs ! b) \<longrightarrow> x ! b ! j \<le> x ! b ! i)) \<and>
        (\<forall>j<n. j \<notin> set (idxs ! b) \<longrightarrow> ?res ! b ! j = 0)"
    if b: "b < length x" for b
  proof -
    have len: "length (x ! b) = n" using assms(3) b by (rule has_width_nth)
    have sel: "is_topk (nat k) (x ! b) (idxs ! b)"
      using assms(4) b by (simp add: topk_result_def list_all2_conv_all_nth)
    have "length (idxs ! b) = nat k"
      using sel by (rule is_topk_length)
    moreover have dist: "distinct (idxs ! b)"
      using sel by (rule is_topk_distinct)
    moreover have "i < n \<and> ?res ! b ! i = f (x ! b ! i) \<and>
           (\<forall>j<n. j \<notin> set (idxs ! b) \<longrightarrow> x ! b ! j \<le> x ! b ! i)"
      if i: "i \<in> set (idxs ! b)" for i
    proof -
      have r: "i < length (x ! b)" using sel i by (rule is_topk_range)
      have "?res ! b ! i = f (x ! b ! i)"
        using b TopK_row_selected [OF dist i r, of f] by simp
      moreover have "x ! b ! j \<le> x ! b ! i" if "j < n" "j \<notin> set (idxs ! b)" for j
        using is_topk_largest [OF sel i] that len by simp
      ultimately show ?thesis using r len by simp
    qed
    moreover have "?res ! b ! j = 0"
      if "j < n" "j \<notin> set (idxs ! b)" for j
      using that b len TopK_row_unselected [of j "x ! b" "idxs ! b" f] by simp
    ultimately show ?thesis by blast
  qed
  show ?thesis
    using run width row by simp
qed

theorem TopK_forward_selects_witness:
  "(0::int) \<le> 2 \<and> (2::int) \<le> int 5 \<and> has_width 5 [[1, 3, 3, 3, 0], [- 1, - 2, - 3, - 4, - 5]] \<and>
   topk_result (nat 2) [[1, 3, 3, 3, 0], [- 1, - 2, - 3, - 4, - 5]] [[1, 3], [0, 1]] \<and>
   (\<exists>res. TopK_forward 5 2 relu [[1, 3], [0, 1]] [[1, 3, 3, 3, 0], [- 1, - 2, - 3, - 4, - 5]]
            = Inr res \<and> has_width 5 res) \<and>
   TopK_forward 5 2 relu [[1, 3], [0, 1]] [[1, 3, 3, 3, 0], [- 1, - 2, - 3, - 4, - 5]]
     = Inr [[0, 3, 0, 3, 0], [0, 0, 0, 0, 0]]"
proof -
  let ?x = "[[1, 3, 3, 3, 0], [- 1, - 2, - 3, - 4, - 5]] :: mat"
  have h: "has_width 5 ?x"
    by (simp add: has_width_def)
  have t: "topk_result (nat 2) ?x [[1, 3], [0, 1]]"
    by (simp add: topk_result_def is_topk_def upt_rec)
  have "(0::int) \<le> 2" and "(2::int) \<le> int 5"
    by simp_all
  from TopK_forward_selects [OF this h t, of relu]
  have ex: "\<exists>res. TopK_forward 5 2 relu [[1, 3], [0, 1]] ?x = Inr res \<and> has_width 5 res"
    by blast
  have val: "TopK_forward 5 2 relu [[1, 3], [0, 1]] ?x = Inr [[0, 3, 0, 3, 0], [0, 0, 0, 0, 0]]"
    by (simp add: TopK_forward_def TopK_row_def upt_rec scatter_def relu_def)
  from h t ex val show ?thesis by simp
qed

text \<open>
  C10. \<^verbatim>\<open>TopK.forward\<close> returns exactly when \<open>0 \<le> k\<close> and \<open>k\<close> is at most the size of the
  last dimension, and \<^verbatim>\<open>TopKSAE.forward\<close> (on a model whose encoder has as many outputs as
  the dictionary has atoms) exactly when \<open>0 \<le> k \<le> N\<close>; otherwise the selection raises.
  The constructor stores any \<open>k\<close> unchecked.
\<close>

theorem TopK_defined_iff_k_in_range:
  assumes "length (tk_W st) = length (tk_D st)"
  shows "((\<exists>res. TopK_forward n k f idxs x = Inr res) \<longleftrightarrow> 0 \<le> k \<and> k \<le> int n) \<and>
     ((\<exists>r. snd (TopKSAE_forward st idxs' X) = Inr r) \<longleftrightarrow>
        0 \<le> tk_k st \<and> tk_k st \<le> int (length (tk_D st))) \<and>
     (\<not> (0 \<le> tk_k st \<and> tk_k st \<le> int (length (tk_D st))) \<longrightarrow>
        snd (TopKSAE_forward st idxs' X) = Inl RuntimeError) \<and>
     tk_k (TopKSAE_init D M learn_D k f rndW rnd) = k"
  using assms
  by (auto simp: TopK_forward_def TopKSAE_forward_def TopKSAE_init_def Let_def
      split: sum.splits if_splits)

theorem TopK_defined_iff_k_in_range_witness:
  "length (tk_W (tk_example 5)) = length (tk_D (tk_example 5)) \<and>
   tk_k (tk_example 5) = 5 \<and> length (tk_D (tk_example 5)) = 2 \<and>
   snd (TopKSAE_forward (tk_example 5) [] [[1, 1]]) = Inl RuntimeError \<and>
   (\<exists>r. snd (TopKSAE_forward (tk_example 1) [[0]] [[1, 1]]) = Inr r)"
proof -
  have h: "length (tk_W (tk_example 5)) = length (tk_D (tk_example 5))"
    by (simp add: tk_example_def TopKSAE_init_def)
  have k: "tk_k (tk_example 5) = 5" and n: "length (tk_D (tk_example 5)) = 2"
    by (simp_all add: tk_example_def TopKSAE_init_def)
  from TopK_defined_iff_k_in_range [OF h, of 2 5 relu "[]" "[[1, 1]]" "[]" "[[1, 1]]"]
  have "\<not> (0 \<le> tk_k (tk_example 5) \<and> tk_k (tk_example 5) \<le> int (length (tk_D (tk_example 5)))) \<longrightarrow>
        snd (TopKSAE_forward (tk_example 5) [] [[1, 1]]) = Inl RuntimeError"
    by blast
  then have "snd (TopKSAE_forward (tk_example 5) [] [[1, 1]]) = Inl RuntimeError"
    unfolding k n by simp
  moreover have "\<exists>r. snd (TopKSAE_forward (tk_example 1) [[0]] [[1, 1]]) = Inr r"
    by (simp add: TopKSAE_forward_def TopK_forward_def tk_example_def TopKSAE_init_def Let_def)
  ultimately show ?thesis using h k n by simp
qed




text \<open>
  C6. When \<^verbatim>\<open>TopKSAE.forward\<close> returns \<open>(S', X')\<close> on a batch \<open>X\<close> of the model's width,
  \<^verbatim>\<open>loss_forward(X, weight)\<close> returns the same pair and the sum over all entries of the
  squared difference of \<open>X'\<close> and \<open>X\<close>, with no sparsity term; its result is the same for
  every \<^verbatim>\<open>weight\<close>.
\<close>

theorem TopKSAE_loss_is_squared_error:
  assumes "TopKSAE_forward st idxs X = (st', Inr (S', X'))"
    and "has_width (tk_M st) X"
    and "length (tk_pre_bias st) = tk_M st"
  shows "TopKSAE_loss_forward st idxs X weight =
           (st', Inr (S', X', \<Sum>i<length X. \<Sum>j<tk_M st. (X' ! i ! j - X ! i ! j)\<^sup>2)) \<and>
         TopKSAE_loss_forward st idxs X weight' = TopKSAE_loss_forward st idxs X weight"
proof -
  have shape: "length X' = length X" "has_width (tk_M st) X'"
    using TopKSAE_forward_shape [OF assms(1,3)] by simp_all
  have "mse_loss_sum X' X = (\<Sum>i<length X. \<Sum>j<tk_M st. (X' ! i ! j - X ! i ! j)\<^sup>2)"
    using shape assms(2) by (rule mse_loss_sum_entries)
  then show ?thesis
    using assms(1) by (simp add: TopKSAE_loss_forward_def)
qed

theorem TopKSAE_loss_is_squared_error_witness:
  "has_width (tk_M (tk_example 1)) [[1, 1]] \<and>
   length (tk_pre_bias (tk_example 1)) = tk_M (tk_example 1) \<and>
   snd (TopKSAE_forward (tk_example 1) [[0]] [[1, 1]]) = Inr ([[1, 0]], [[3 / 5, 4 / 5]]) \<and>
   snd (TopKSAE_loss_forward (tk_example 1) [[0]] [[1, 1]] 7)
     = Inr ([[1, 0]], [[3 / 5, 4 / 5]], 1 / 5)"
proof -
  have w: "has_width (tk_M (tk_example 1)) [[1, 1]]"
    and b: "length (tk_pre_bias (tk_example 1)) = tk_M (tk_example 1)"
    and m: "tk_M (tk_example 1) = 2"
    by (simp_all add: tk_example_def TopKSAE_init_def has_width_def)
  have n: "normalize_rows [[3, 4], [0, 1]] = [[3 / 5, 4 / 5], [0, 1]]"
    by (simp add: normalize_rows_def row_norm_def sqrt_25)
  have s: "S_pre_act st [[1, 1]] = [[1, 1]]"
    if "tk_W st = [[1, 0], [0, 1]]" "tk_pre_bias st = [0, 0]" "tk_latent_bias st = [0, 0]" for st
    using that
    by (simp add: S_pre_act_def add_vec_def linear_nobias_def sub_vec_def dot_def)
  have t: "TopK_row relu [0] [1, 1] = [1, 0]"
    by (simp add: TopK_row_def scatter_def relu_def)
  obtain st' where r: "TopKSAE_forward (tk_example 1) [[0]] [[1, 1]]
      = (st', Inr ([[1, 0]], [[3 / 5, 4 / 5]]))"
    by (simp add: TopKSAE_forward_def TopK_forward_def tk_example_def TopKSAE_init_def Let_def
        n s t matmul_def add_vec_def upt_rec numeral_2_eq_2)
  from TopKSAE_loss_is_squared_error [OF r w b, of 7]
  have "snd (TopKSAE_loss_forward (tk_example 1) [[0]] [[1, 1]] 7)
          = Inr ([[1, 0]], [[3 / 5, 4 / 5]], 1 / 5)"
    by (simp add: m lessThan_Suc numeral_2_eq_2 power2_eq_square)
  with w b r show ?thesis by simp
qed

text \<open>
  C8, as the code has it. A \<^verbatim>\<open>SparseCoding\<close>, \<^verbatim>\<open>SparseAutoEncoder\<close> or \<^verbatim>\<open>TopKSAE\<close> model
  constructed with \<^verbatim>\<open>learn_D=False\<close> holds the supplied dictionary after construction and
  after any calls of \<^verbatim>\<open>forward\<close> and \<^verbatim>\<open>loss_forward\<close>. A \<^verbatim>\<open>GatedSAE\<close> constructed with
  \<^verbatim>\<open>learn_D=False\<close> holds the supplied dictionary with every row divided by its norm,
  which its constructor does once, and no call changes it afterwards.
\<close>

theorem fixed_dictionary_kept:
  "sc_D (foldl SparseCoding_call (SparseCoding_init S D M False rnd) cs) = D \<and>
   sae_D (foldl SparseAutoEncoder_call
            (SparseAutoEncoder_init D M False use_relu rndW rndb rnd) cs) = D \<and>
   tk_D (foldl TopKSAE_call (TopKSAE_init D M False k f rndW rnd) ics) = D \<and>
   gs_D (foldl GatedSAE_call (GatedSAE_init D M False rnd rndW) cs) = normalize_rows D"
  by (simp add: SparseCoding_calls_fixed SparseAutoEncoder_calls_fixed TopKSAE_calls_fixed
      GatedSAE_calls_fixed SparseCoding_init_def SparseAutoEncoder_init_def TopKSAE_init_def
      GatedSAE_init_def Let_def)

text \<open>
  C8 as stated fails for \<^verbatim>\<open>GatedSAE\<close>: constructed with \<^verbatim>\<open>learn_D=False\<close> from the
  dictionary \<open>(3, 4)\<close>, it holds \<open>(3/5, 4/5)\<close> before any call.
\<close>

theorem GatedSAE_init_normalizes_fixed_dictionary:
  "gs_D (foldl GatedSAE_call (GatedSAE_init [[3, 4]] 2 False [[0, 0]] [[1], [1]]) [])
     = [[3 / 5, 4 / 5]] \<and>
   gs_D (foldl GatedSAE_call (GatedSAE_init [[3, 4]] 2 False [[0, 0]] [[1], [1]]) [])
     \<noteq> [[3, 4]]"
  by (simp add: GatedSAE_init_def normalize_rows_def row_norm_def sqrt_25)

end
